theory Spec2Isabelle
  imports Main "HOL-Library.Sublist" "HOL-Library.Char_ord"
begin

section \<open>The session manager of wwebjs-api (src/sessions.js)\<close>

text \<open>
  A shallow embedding of \<^verbatim>\<open>src/sessions.js\<close>. The module keeps a registry
  (\<^verbatim>\<open>sessions\<close>, a Map from session id to client object) and drives three
  collaborators it does not implement: the file system (\<^verbatim>\<open>fs\<close>, \<^verbatim>\<open>path\<close>),
  the whatsapp-web.js client with its puppeteer page and browser, and the logger, webhook
  and websocket modules. The embedding passes the registry, the file system, the log and
  the list of collaborator calls explicitly in a record \<open>world\<close>; what a collaborator
  answers is data of the model (a field of the client, or of the environment record
  \<open>env\<close>), so that every theorem holds for every behaviour of the collaborators.

  Conventions.
  \<^item> A JavaScript exception is a value \<open>Inl e\<close> of a sum type; a normal return is \<open>Inr v\<close>.
  \<^item> An awaited promise of a collaborator either resolves or rejects. Where the source
    races a promise against a timer (\<^verbatim>\<open>Promise.race\<close>) the promise may also stay pending.
  \<^item> Constructors and synchronous collaborator calls (\<^verbatim>\<open>new Client\<close>,
    \<^verbatim>\<open>removeAllListeners\<close>, \<^verbatim>\<open>isClosed\<close>, \<^verbatim>\<open>isConnected\<close>,
    \<^verbatim>\<open>initWebSocketServer\<close>) do not throw; reading a property of \<^verbatim>\<open>undefined\<close>
    throws a TypeError, as in JavaScript.
  \<^item> Paths are POSIX paths (the service runs in a Linux container): \<^verbatim>\<open>path.sep\<close> is \<open>/\<close>.
\<close>

subsection \<open>Errors and the log\<close>

datatype jserror = JsError (error_name: string) (error_message: string)

text \<open>The error of line 491: \<^verbatim>\<open>new Error('Invalid path: Directory traversal detected')\<close>.\<close>

definition PathTraversalError :: jserror where
  "PathTraversalError = JsError ''Error'' ''Invalid path: Directory traversal detected''"

definition TypeError :: "string \<Rightarrow> jserror" where
  "TypeError what = JsError ''TypeError'' (''Cannot read properties of undefined (reading '' @ what @ '')'')"

datatype level = Info | Warn | Error

text \<open>
  One call of the logger: the level, the \<^verbatim>\<open>sessionId\<close> and the error of the context
  object (when the call passes them) and the message.
\<close>

datatype log_entry = Log level "string option" "jserror option" string

subsection \<open>The path module (POSIX)\<close>

text \<open>\<^verbatim>\<open>str.split('/')\<close>.\<close>

fun split_sep :: "string \<Rightarrow> string list" where
  "split_sep [] = [[]]"
| "split_sep (c # cs) =
     (if c = CHR ''/'' then [] # split_sep cs
      else (case split_sep cs of [] \<Rightarrow> [[c]] | s # ss \<Rightarrow> (c # s) # ss))"

text \<open>\<^verbatim>\<open>segments.join('/')\<close>.\<close>

fun join_sep :: "string list \<Rightarrow> string" where
  "join_sep [] = []"
| "join_sep [s] = s"
| "join_sep (s # t # ss) = s @ ''/'' @ join_sep (t # ss)"

text \<open>
  \<^verbatim>\<open>normalizeString\<close> of Node's path module, on the segments: empty and \<open>.\<close> segments
  are dropped; \<open>..\<close> removes the segment before it, unless there is none or it is itself
  \<open>..\<close>, in which case it is kept for a relative path and dropped for an absolute one.
\<close>

fun normalizeString :: "bool \<Rightarrow> string list \<Rightarrow> string list \<Rightarrow> string list" where
  "normalizeString allowAboveRoot res [] = res"
| "normalizeString allowAboveRoot res (s # ss) =
     (if s = [] \<or> s = ''.'' then normalizeString allowAboveRoot res ss
      else if s = ''..'' then
        (if res \<noteq> [] \<and> last res \<noteq> ''..'' then normalizeString allowAboveRoot (butlast res) ss
         else if allowAboveRoot then normalizeString allowAboveRoot (res @ [''..'']) ss
         else normalizeString allowAboveRoot res ss)
      else normalizeString allowAboveRoot (res @ [s]) ss)"

definition isAbsolute :: "string \<Rightarrow> bool" where
  "isAbsolute p = (p \<noteq> [] \<and> hd p = CHR ''/'')"

text \<open>\<^verbatim>\<open>path.normalize\<close>.\<close>

definition normalize :: "string \<Rightarrow> string" where
  "normalize p =
     (if p = [] then ''.''
      else
        let trailingSeparator = (last p = CHR ''/'');
            q = join_sep (normalizeString (\<not> isAbsolute p) [] (split_sep p))
        in if q = [] then (if isAbsolute p then ''/'' else if trailingSeparator then ''./'' else ''.'')
           else (if isAbsolute p then ''/'' else []) @ q @ (if trailingSeparator then ''/'' else []))"

text \<open>\<^verbatim>\<open>path.join(...args)\<close>.\<close>

definition path_join :: "string list \<Rightarrow> string" where
  "path_join args =
     (let joined = filter (\<lambda>a. a \<noteq> []) args
      in if joined = [] then ''.'' else normalize (join_sep joined))"

subsection \<open>The file system\<close>

text \<open>
  The file system is the environment of the module. Its model: the working directory, the
  list of the paths that exist (each in its real form: absolute, with no symbolic link
  among its parent directories) and the table of symbolic links (the path of the link to
  the real path it leads to).
\<close>

record filesys =
  cwd :: string
  entries :: "string list"
  links :: "(string \<times> string) list"

definition child :: "string \<Rightarrow> string \<Rightarrow> string" where
  "child dir name = (if dir = ''/'' then ''/'' @ name else dir @ ''/'' @ name)"

definition ENOENT :: "string \<Rightarrow> string \<Rightarrow> jserror" where
  "ENOENT syscall p =
     JsError ''Error'' (''ENOENT: no such file or directory, '' @ syscall @ '' '' @ p)"

text \<open>
  Resolution of a path, segment by segment from a real directory: every step must exist;
  a step that is a symbolic link continues from the link's target.
\<close>

fun walk :: "filesys \<Rightarrow> string \<Rightarrow> string list \<Rightarrow> string option" where
  "walk fs dir [] = Some dir"
| "walk fs dir (s # ss) =
     (let nxt = child dir s
      in if nxt \<notin> set (entries fs) then None
         else (case map_of (links fs) nxt of
                 None \<Rightarrow> walk fs nxt ss
               | Some t \<Rightarrow> if t \<in> set (entries fs) then walk fs t ss else None))"

text \<open>The segments of the absolute form of a path (\<^verbatim>\<open>path.resolve\<close>).\<close>

definition resolve_segments :: "filesys \<Rightarrow> string \<Rightarrow> string list" where
  "resolve_segments fs p =
     normalizeString False [] (split_sep (if isAbsolute p then p else cwd fs @ ''/'' @ p))"

text \<open>\<^verbatim>\<open>fs.promises.realpath(p)\<close>: rejects with ENOENT when the path does not exist.\<close>

definition realpath :: "filesys \<Rightarrow> string \<Rightarrow> jserror + string" where
  "realpath fs p =
     (case walk fs ''/'' (resolve_segments fs p) of
        None \<Rightarrow> Inl (ENOENT ''realpath'' p)
      | Some r \<Rightarrow> Inr r)"

text \<open>
  \<^verbatim>\<open>fs.promises.rm(t, { recursive: true, force: true })\<close> removes \<open>t\<close> and
  everything below it; it is taken to succeed.
\<close>

definition rm :: "filesys \<Rightarrow> string \<Rightarrow> filesys" where
  "rm fs t = fs\<lparr>entries := filter (\<lambda>p. \<not> (p = t \<or> prefix (t @ ''/'') p)) (entries fs)\<rparr>"

text \<open>The name of \<open>p\<close> when \<open>p\<close> is an entry directly in the directory \<open>dir\<close>.\<close>

definition entry_name :: "string \<Rightarrow> string \<Rightarrow> string option" where
  "entry_name dir p =
     (let n = drop (length (child dir [])) p
      in if prefix (child dir []) p \<and> n \<noteq> [] \<and> CHR ''/'' \<notin> set n then Some n else None)"

text \<open>\<^verbatim>\<open>fs.promises.readdir(p)\<close>: the names in the directory, each once.\<close>

definition readdir :: "filesys \<Rightarrow> string \<Rightarrow> jserror + string list" where
  "readdir fs p =
     (case walk fs ''/'' (resolve_segments fs p) of
        None \<Rightarrow> Inl (ENOENT ''scandir'' p)
      | Some dir \<Rightarrow> Inr (remdups (List.map_filter (entry_name dir) (entries fs))))"

text \<open>
  \<^verbatim>\<open>fs.promises.lstat(p)\<close> succeeds when the parent directory resolves and holds the
  last segment (a final symbolic link is not followed); \<^verbatim>\<open>unlink\<close> removes that entry.
\<close>

definition lstat_entry :: "filesys \<Rightarrow> string \<Rightarrow> string option" where
  "lstat_entry fs p =
     (let segs = resolve_segments fs p
      in if segs = [] then Some ''/''
         else (case walk fs ''/'' (butlast segs) of
                 None \<Rightarrow> None
               | Some dir \<Rightarrow> if child dir (last segs) \<in> set (entries fs)
                             then Some (child dir (last segs)) else None))"

definition unlink :: "filesys \<Rightarrow> string \<Rightarrow> filesys" where
  "unlink fs e = fs\<lparr>entries := removeAll e (entries fs)\<rparr>"

subsection \<open>Clients, pages and browsers\<close>

text \<open>
  What a promise does while the source waits for it: where the source races it against a
  timer, it may also stay pending until the timer wins.
\<close>

datatype outcome = Resolved | Rejected jserror | Pending

text \<open>
  The puppeteer page of a client: the page events that carry a restart listener, and what
  \<^verbatim>\<open>isClosed()\<close> and \<^verbatim>\<open>evaluate(() => 1)\<close> answer at the n-th attempt of the
  validation probe.
\<close>

record page =
  listeners :: "string list"
  isClosed :: "nat \<Rightarrow> bool"
  evaluate :: "nat \<Rightarrow> outcome"

text \<open>
  The puppeteer browser: what \<^verbatim>\<open>isConnected()\<close> answers at the n-th poll, whether
  \<^verbatim>\<open>pages()\<close> rejects or gives pages whose \<^verbatim>\<open>close()\<close> resolves or rejects,
  what \<^verbatim>\<open>close()\<close> does and whether \<^verbatim>\<open>process()\<close> gives a child process.
\<close>

record browser =
  isConnected :: "nat \<Rightarrow> bool"
  pages :: "jserror + jserror option list"
  close :: outcome
  process :: bool

datatype cache = CacheLocal | CacheRemote string | CacheNone

record client_options =
  opt_webVersion :: "string option"
  opt_webVersionCache :: "cache option"

text \<open>
  A client object: its identity, the options it was constructed with, the fields the
  module reads and writes (\<^verbatim>\<open>pupPage\<close>, \<^verbatim>\<open>pupBrowser\<close>, \<^verbatim>\<open>qr\<close>,
  \<^verbatim>\<open>qrImage\<close>, \<^verbatim>\<open>qrClearTimeout\<close>), the event categories with a listener, and
  what its asynchronous methods answer: \<open>None\<close> when the promise resolves, the error when
  it rejects.
\<close>

record client =
  cid :: nat
  options :: client_options
  pupPage :: "page option"
  pupBrowser :: "browser option"
  qr :: "string option"
  qrImage :: "string option"
  qrClearTimeout :: "nat option"
  handlers :: "string list"
  initialize :: "jserror option"
  getState :: "jserror + string option"
  logout :: "jserror option"
  destroy :: "jserror option"

subsection \<open>The world and the environment\<close>

text \<open>The calls the module makes to its collaborators, in the order it makes them.\<close>

datatype call =
    Construct nat string
  | Initialize nat
  | Logout nat
  | Destroy nat
  | ClosePages nat
  | CloseBrowser nat
  | Kill nat
  | InitWebSocketServer string
  | TerminateWebSocketServer string
  | TriggerWebhook string string string
  | TriggerWebSocket string string

text \<open>
  The state: the registry \<^verbatim>\<open>sessions\<close>, the file system, the log, the calls made, the
  number of clients constructed so far, and the pending timers (the timer with the
  identity of the client whose QR code it clears).
\<close>

record world =
  sessions :: "string \<rightharpoonup> client"
  fs :: filesys
  logs :: "log_entry list"
  calls :: "call list"
  constructed :: nat
  timers :: "(nat \<times> nat) list"
  next_timer :: nat

text \<open>
  The environment: the configuration of \<^verbatim>\<open>./config\<close>, \<^verbatim>\<open>process.env\<close>, and the
  answers of the collaborators that are not methods of a client. \<open>newClient n\<close> is the
  object the n-th \<^verbatim>\<open>new Client(...)\<close> constructs; \<open>waitForNestedObject\<close> is the
  error that helper rejects with when the object it waits for does not appear.
\<close>

record env =
  sessionFolderPath :: string
  baseWebhookURL :: string
  webVersion :: "string option"
  webVersionCacheType :: "string option"
  recoverSessions :: bool
  releaseBrowserLock :: bool
  process_env :: "string \<Rightarrow> string option"
  checkIfEventisEnabled :: "string \<Rightarrow> bool"
  newClient :: "nat \<Rightarrow> client"
  terminateWebSocketServer :: "string \<Rightarrow> jserror option"
  waitForNestedObject :: jserror

definition logger :: "level \<Rightarrow> string option \<Rightarrow> jserror option \<Rightarrow> string \<Rightarrow> world \<Rightarrow> world" where
  "logger lv sid err msg w = w\<lparr>logs := logs w @ [Log lv sid err msg]\<rparr>"

definition called :: "call \<Rightarrow> world \<Rightarrow> world" where
  "called c w = w\<lparr>calls := calls w @ [c]\<rparr>"

subsection \<open>validateSession (lines 28 to 82)\<close>

record validation =
  success :: bool
  state :: "string option"
  message :: string

text \<open>
  The probe loop of lines 46 to 65, \<^verbatim>\<open>while (true)\<close> with the counter
  \<^verbatim>\<open>maxRetry\<close>. The result is \<open>Some v\<close> when the loop returns \<open>v\<close> from the
  function and \<open>None\<close> when it leaves by \<^verbatim>\<open>break\<close>, with the log. The race of line
  53 resolves when the evaluation resolves and when the timer of 1000 ms wins, and rejects
  when the evaluation rejects. The loop is not bounded by its form, so it is a partial
  function: \<open>None\<close> of the outer option is a loop that never ends.
\<close>

partial_function (option) probe ::
  "string \<Rightarrow> client \<Rightarrow> nat \<Rightarrow> log_entry list \<Rightarrow> (validation option \<times> log_entry list) option" where
  "probe sessionId client maxRetry lg =
     (case pupPage client of
        None \<Rightarrow> Some (Some \<lparr>success = False, state = None, message = ''browser tab closed''\<rparr>, lg)
      | Some pg \<Rightarrow>
          if isClosed pg maxRetry
          then Some (Some \<lparr>success = False, state = None, message = ''browser tab closed''\<rparr>, lg)
          else (case evaluate pg maxRetry of
                  Resolved \<Rightarrow> Some (None, lg)
                | Pending \<Rightarrow> Some (None, lg)
                | Rejected error \<Rightarrow>
                    if maxRetry = 2
                    then Some (Some \<lparr>success = False, state = None, message = ''session closed''\<rparr>,
                               lg @ [Log Warn (Some sessionId) (Some error)
                                       ''Evaluation error during session validation.''])
                    else probe sessionId client (maxRetry + 1)
                           (lg @ [Log Warn (Some sessionId) (Some error)
                                    ''Evaluation error during session validation.''])))"

declare probe.simps [code]

text \<open>
  The \<^verbatim>\<open>try\<close> block of validateSession. \<^verbatim>\<open>waitForNestedObject\<close> of line 40 only
  waits: its rejection is caught and its value dropped, so \<open>pupPage\<close> is the field as it
  is after the wait.
\<close>

definition validateSession_try ::
  "string \<Rightarrow> world \<Rightarrow> ((jserror + validation) \<times> world) option" where
  "validateSession_try sessionId w =
     (case sessions w sessionId of
        None \<Rightarrow> Some (Inr \<lparr>success = False, state = None, message = ''session_not_found''\<rparr>, w)
      | Some client \<Rightarrow>
          (case probe sessionId client 0 (logs w) of
             None \<Rightarrow> None
           | Some (Some v, lg) \<Rightarrow> Some (Inr v, w\<lparr>logs := lg\<rparr>)
           | Some (None, lg) \<Rightarrow>
               (case getState client of
                  Inl error \<Rightarrow> Some (Inl error, w\<lparr>logs := lg\<rparr>)
                | Inr st \<Rightarrow>
                    if st \<noteq> Some ''CONNECTED''
                    then Some (Inr \<lparr>success = False, state = st, message = ''session_not_connected''\<rparr>,
                               w\<lparr>logs := lg\<rparr>)
                    else Some (Inr \<lparr>success = True, state = st, message = ''session_connected''\<rparr>,
                               w\<lparr>logs := lg\<rparr>))))"

text \<open>validateSession: the \<^verbatim>\<open>catch\<close> of line 78 turns every error into a result.\<close>

definition validateSession ::
  "string \<Rightarrow> world \<Rightarrow> ((jserror + validation) \<times> world) option" where
  "validateSession sessionId w =
     (case validateSession_try sessionId w of
        None \<Rightarrow> None
      | Some (Inl error, w') \<Rightarrow>
          Some (Inr \<lparr>success = False, state = None, message = error_message error\<rparr>,
                logger Error (Some sessionId) (Some error) ''Failed to validate session'' w')
      | Some (Inr v, w') \<Rightarrow> Some (Inr v, w'))"

subsection \<open>setupSession and initializeEvents (lines 114 to 477)\<close>

definition toLowerCase :: "string \<Rightarrow> string" where
  "toLowerCase s =
     map (\<lambda>c. if CHR ''A'' \<le> c \<and> c \<le> CHR ''Z'' then char_of (of_char c + (32::nat)) else c) s"

definition toUpperCase :: "string \<Rightarrow> string" where
  "toUpperCase s =
     map (\<lambda>c. if CHR ''a'' \<le> c \<and> c \<le> CHR ''z'' then char_of (of_char c - (32::nat)) else c) s"

text \<open>
  Lines 125 to 161: the options of the client. \<^verbatim>\<open>if (webVersion)\<close> is false for an
  undefined and for an empty version; \<^verbatim>\<open>webVersionCacheType.toLowerCase()\<close> throws
  when the cache type is undefined.
\<close>

definition clientOptions :: "env \<Rightarrow> jserror + client_options" where
  "clientOptions e =
     (case webVersion e of
        None \<Rightarrow> Inr \<lparr>opt_webVersion = None, opt_webVersionCache = None\<rparr>
      | Some v \<Rightarrow>
          if v = [] then Inr \<lparr>opt_webVersion = None, opt_webVersionCache = None\<rparr>
          else (case webVersionCacheType e of
                  None \<Rightarrow> Inl (TypeError ''toLowerCase'')
                | Some t \<Rightarrow>
                    Inr \<lparr>opt_webVersion = Some v,
                         opt_webVersionCache = Some
                           (if toLowerCase t = ''local'' then CacheLocal
                            else if toLowerCase t = ''remote''
                            then CacheRemote
                              (''https://raw.githubusercontent.com/wppconnect-team/wa-version/main/html/''
                                 @ v @ ''.html'')
                            else CacheNone)\<rparr>))"

text \<open>
  \<^verbatim>\<open>new Client(clientOptions)\<close>: the object of the environment, new: it has no QR
  fields, no listener and no timer yet.
\<close>

definition construct :: "env \<Rightarrow> nat \<Rightarrow> client_options \<Rightarrow> client" where
  "construct e n opts =
     (newClient e n)\<lparr>cid := n, options := opts,
        pupPage := map_option (\<lambda>pg. pg\<lparr>listeners := []\<rparr>) (pupPage (newClient e n)),
        qr := None, qrImage := None, qrClearTimeout := None, handlers := []\<rparr>"

text \<open>Line 200: the webhook of the session, \<^verbatim>\<open>process.env[...] || baseWebhookURL\<close>.\<close>

definition sessionWebhook :: "env \<Rightarrow> string \<Rightarrow> string" where
  "sessionWebhook e sessionId =
     (case process_env e (toUpperCase sessionId @ ''_WEBHOOK_URL'') of
        None \<Rightarrow> baseWebhookURL e
      | Some url \<Rightarrow> if url = [] then baseWebhookURL e else url)"

text \<open>
  The event categories whose listener is registered once \<^verbatim>\<open>checkIfEventisEnabled\<close>
  resolves, in the order of lines 224 to 476.
\<close>

definition gated_events :: "string list" where
  "gated_events =
     [''auth_failure'', ''authenticated'', ''call'', ''change_state'', ''disconnected'',
      ''group_join'', ''group_leave'', ''group_admin_changed'', ''group_membership_request'',
      ''group_update'', ''loading_screen'', ''media_uploaded'', ''message'', ''message_ack'',
      ''message_create'', ''message_reaction'', ''message_edit'', ''message_ciphertext'',
      ''message_revoke_everyone'', ''message_revoke_me'', ''ready'', ''contact_changed'',
      ''chat_removed'', ''chat_archived'', ''unread_count'', ''vote_update'']"

text \<open>
  initializeEvents. With \<^verbatim>\<open>recoverSessions\<close> the page gets one \<^verbatim>\<open>once\<close> listener for
  \<open>close\<close> and one for \<open>error\<close> (lines 202 to 221). Line 234 sets \<^verbatim>\<open>client.qr = null\<close>
  when the listener of \<open>authenticated\<close> is registered, outside that listener. The listener
  of \<open>qr\<close> is registered in every case (line 405).

  Modelled from the spec: \<^verbatim>\<open>checkIfEventisEnabled\<close> of \<^verbatim>\<open>./utils\<close>, a boolean query
  per event category; the listener of a category is registered when it is enabled.
\<close>

definition initializeEvents :: "env \<Rightarrow> client \<Rightarrow> string \<Rightarrow> world \<Rightarrow> client \<times> world" where
  "initializeEvents e client sessionId w =
     (let (client1, w1) =
            (if recoverSessions e then
               (case pupPage client of
                  None \<Rightarrow> (client, logger Error (Some sessionId) (Some (waitForNestedObject e))
                                     ''Error waiting for pupPage.'' w)
                | Some pg \<Rightarrow>
                    (client\<lparr>pupPage := Some (pg\<lparr>listeners := listeners pg @ [''close'', ''error'']\<rparr>)\<rparr>, w))
             else (client, w));
          client2 = (if checkIfEventisEnabled e ''authenticated'' then client1\<lparr>qr := None\<rparr> else client1)
      in (client2\<lparr>handlers := handlers client2 @ [''qr''] @ filter (checkIfEventisEnabled e) gated_events\<rparr>,
          w1))"

record setup_result =
  result_success :: bool
  result_message :: string
  result_client :: "client option"

text \<open>
  Lines 164 to 172: with \<^verbatim>\<open>releaseBrowserLock\<close>, the lock file of the browser is
  removed when \<^verbatim>\<open>lstat\<close> finds it.
\<close>

definition releaseLock :: "env \<Rightarrow> string \<Rightarrow> world \<Rightarrow> world" where
  "releaseLock e sessionId w =
     (if releaseBrowserLock e then
        (case lstat_entry (fs w) (path_join [sessionFolderPath e, ''session-'' @ sessionId, ''SingletonLock'']) of
           None \<Rightarrow> w
         | Some lock \<Rightarrow>
             (logger Warn (Some sessionId) None ''Browser lock file exists, removing.'' w)
               \<lparr>fs := unlink (fs w) lock\<rparr>)
      else w)"

text \<open>The outer \<^verbatim>\<open>try\<close> block of setupSession (lines 116 to 188).\<close>

definition setupSession_try :: "env \<Rightarrow> string \<Rightarrow> world \<Rightarrow> (jserror + setup_result) \<times> world" where
  "setupSession_try e sessionId w =
     (if sessions w sessionId \<noteq> None
      then (Inr \<lparr>result_success = False,
                 result_message = ''Session already exists for: '' @ sessionId,
                 result_client = sessions w sessionId\<rparr>, w)
      else
        (case clientOptions e of
           Inl error \<Rightarrow> (Inl error, w)
         | Inr opts \<Rightarrow>
             let client = construct e (constructed w) opts;
                 w1 = called (Construct (cid client) sessionId) (w\<lparr>constructed := constructed w + 1\<rparr>);
                 w2 = releaseLock e sessionId w1;
                 w3 = called (Initialize (cid client)) w2
             in (case initialize client of
                   Some error \<Rightarrow>
                     (Inl error, logger Error (Some sessionId) (Some error) ''Initialize error'' w3)
                 | None \<Rightarrow>
                     let w4 = called (InitWebSocketServer sessionId) w3;
                         (client', w5) = initializeEvents e client sessionId w4
                     in (Inr \<lparr>result_success = True,
                              result_message = ''Session initiated successfully'',
                              result_client = Some client'\<rparr>,
                         w5\<lparr>sessions := (sessions w5)(sessionId \<mapsto> client')\<rparr>))))"

text \<open>setupSession: the \<^verbatim>\<open>catch\<close> of line 189 returns the error as a result.\<close>

definition setupSession :: "env \<Rightarrow> string \<Rightarrow> world \<Rightarrow> (jserror + setup_result) \<times> world" where
  "setupSession e sessionId w =
     (case setupSession_try e sessionId w of
        (Inl error, w') \<Rightarrow>
          (Inr \<lparr>result_success = False, result_message = error_message error, result_client = None\<rparr>, w')
      | (Inr r, w') \<Rightarrow> (Inr r, w'))"

subsection \<open>Crash recovery (lines 202 to 221)\<close>

text \<open>
  restartSession is a closure over the client whose page it listens to: it removes the id
  from the registry, destroys that client (an error of destroy is logged and dropped) and
  sets the session up again.
\<close>

definition restartSession :: "env \<Rightarrow> client \<Rightarrow> string \<Rightarrow> world \<Rightarrow> world" where
  "restartSession e client sessionId w =
     (let w1 = w\<lparr>sessions := (sessions w)(sessionId := None)\<rparr>;
          w2 = called (Destroy (cid client)) w1;
          w3 = (case destroy client of
                  None \<Rightarrow> w2
                | Some error \<Rightarrow> logger Error (Some sessionId) (Some error) ''Error during client destroy'' w2)
      in snd (setupSession e sessionId w3))"

text \<open>
  The page of \<open>client\<close> emits \<open>close\<close> or \<open>error\<close>. A \<^verbatim>\<open>once\<close> listener is taken off
  the page before it runs; a page with no listener for the event does nothing.
\<close>

definition page_emit :: "env \<Rightarrow> string \<Rightarrow> string \<Rightarrow> client \<times> world \<Rightarrow> client \<times> world" where
  "page_emit e sessionId ev cw =
     (case cw of (client, w) \<Rightarrow>
        (case pupPage client of
           None \<Rightarrow> (client, w)
         | Some pg \<Rightarrow>
             if ev \<in> set (listeners pg) \<and> (ev = ''close'' \<or> ev = ''error'')
             then
               let client' = client\<lparr>pupPage := Some (pg\<lparr>listeners := removeAll ev (listeners pg)\<rparr>)\<rparr>;
                   w1 = logger Warn (Some sessionId) None
                          (if ev = ''close'' then ''Browser page closed. Restoring session.''
                           else ''Browser page error occurred. Restoring session.'') w
               in (client', restartSession e client' sessionId w1)
             else (client, w)))"

subsection \<open>The listeners of the client (lines 224 to 476)\<close>

text \<open>
  What happens to a client: it emits \<open>qr\<close> with a payload (and \<^verbatim>\<open>QRCode.toBuffer\<close>
  gives the image or rejects), it emits an event of another category, or a timer fires.
\<close>

datatype client_event =
    QrEvent string "jserror + string"
  | Event string
  | TimerEvent nat

text \<open>\<^verbatim>\<open>triggerWebhook\<close> and \<^verbatim>\<open>triggerWebSocket\<close> for one event.\<close>

definition fanout :: "env \<Rightarrow> string \<Rightarrow> string \<Rightarrow> world \<Rightarrow> world" where
  "fanout e sessionId category w =
     called (TriggerWebSocket sessionId category)
       (called (TriggerWebhook (sessionWebhook e sessionId) sessionId category) w)"

text \<open>\<^verbatim>\<open>clearTimeout(t)\<close>.\<close>

definition clearTimeout :: "nat \<Rightarrow> world \<Rightarrow> world" where
  "clearTimeout t w = w\<lparr>timers := filter (\<lambda>(k, c). k \<noteq> t) (timers w)\<rparr>"

text \<open>
  The listener of \<open>qr\<close> (lines 405 to 428): it caches the image and the payload, clears
  the timer of the previous QR code and arms a new one of 60 seconds.
\<close>

definition on_qr ::
  "env \<Rightarrow> string \<Rightarrow> string \<Rightarrow> jserror + string \<Rightarrow> client \<times> world \<Rightarrow> client \<times> world" where
  "on_qr e sessionId qrData rendered cw =
     (case cw of (client, w) \<Rightarrow>
        (case rendered of
           Inl error \<Rightarrow>
             (client, logger Error (Some sessionId) (Some error) ''Failed to generate QR image'' w)
         | Inr qrImageBuffer \<Rightarrow>
             let client1 = client\<lparr>qrImage := Some qrImageBuffer, qr := Some qrData\<rparr>;
                 w1 = (case qrClearTimeout client1 of None \<Rightarrow> w | Some t \<Rightarrow> clearTimeout t w);
                 w2 = w1\<lparr>timers := timers w1 @ [(next_timer w1, cid client1)],
                         next_timer := next_timer w1 + 1\<rparr>;
                 client2 = client1\<lparr>qrClearTimeout := Some (next_timer w1)\<rparr>
             in (client2, if checkIfEventisEnabled e ''qr'' then fanout e sessionId ''qr'' w2 else w2)))"

text \<open>The callback of the timer (lines 414 to 418), run when a pending timer of the client fires.\<close>

definition on_timeout :: "string \<Rightarrow> nat \<Rightarrow> client \<times> world \<Rightarrow> client \<times> world" where
  "on_timeout sessionId t cw =
     (case cw of (client, w) \<Rightarrow>
        if (t, cid client) \<in> set (timers w)
        then (client\<lparr>qr := None, qrImage := None\<rparr>,
              logger Warn (Some sessionId) None ''QR code expired'' (clearTimeout t w))
        else (client, w))"

text \<open>
  One event of a client that went through initializeEvents. The listeners of the
  categories other than \<open>qr\<close> forward the event to the webhook and the websocket and leave
  the client as it is (the payload, and with it the media download and the seen status of
  the message categories, is not part of the model).
\<close>

fun client_step :: "env \<Rightarrow> string \<Rightarrow> client \<times> world \<Rightarrow> client_event \<Rightarrow> client \<times> world" where
  "client_step e sessionId (client, w) (QrEvent qrData rendered) =
     (if ''qr'' \<in> set (handlers client) then on_qr e sessionId qrData rendered (client, w)
      else (client, w))"
| "client_step e sessionId (client, w) (Event category) =
     (if category \<in> set (handlers client) \<and> category \<noteq> ''qr''
      then (client, fanout e sessionId category w)
      else (client, w))"
| "client_step e sessionId (client, w) (TimerEvent t) = on_timeout sessionId t (client, w)"

subsection \<open>deleteSessionFolder (lines 482 to 498)\<close>

definition deleteSessionFolder_try :: "env \<Rightarrow> string \<Rightarrow> world \<Rightarrow> (jserror + unit) \<times> world" where
  "deleteSessionFolder_try e sessionId w =
     (let targetDirPath = path_join [sessionFolderPath e, ''session-'' @ sessionId]
      in case realpath (fs w) targetDirPath of
           Inl error \<Rightarrow> (Inl error, w)
         | Inr resolvedTargetDirPath \<Rightarrow>
             (case realpath (fs w) (sessionFolderPath e) of
                Inl error \<Rightarrow> (Inl error, w)
              | Inr resolvedSessionPath \<Rightarrow>
                  let safeSessionPath = resolvedSessionPath @ ''/''
                  in if \<not> prefix safeSessionPath resolvedTargetDirPath
                     then (Inl PathTraversalError, w)
                     else (Inr (), w\<lparr>fs := rm (fs w) resolvedTargetDirPath\<rparr>)))"

definition deleteSessionFolder :: "env \<Rightarrow> string \<Rightarrow> world \<Rightarrow> (jserror + unit) \<times> world" where
  "deleteSessionFolder e sessionId w =
     (case deleteSessionFolder_try e sessionId w of
        (Inl error, w') \<Rightarrow>
          (Inl error, logger Error (Some sessionId) (Some error) ''Folder deletion error'' w')
      | (Inr u, w') \<Rightarrow> (Inr u, w'))"

subsection \<open>reloadSession (lines 503 to 531)\<close>

text \<open>
  Lines 510 and 511, 543 and 544: \<^verbatim>\<open>client.pupPage?.removeAllListeners\<close> for \<open>close\<close>
  and for \<open>error\<close>.
\<close>

definition removeAllListeners :: "client \<Rightarrow> client" where
  "removeAllListeners client =
     (case pupPage client of
        None \<Rightarrow> client
      | Some pg \<Rightarrow>
          client\<lparr>pupPage := Some (pg\<lparr>listeners :=
            filter (\<lambda>l. l \<noteq> ''close'' \<and> l \<noteq> ''error'') (listeners pg)\<rparr>)\<rparr>)"





subsection \<open>deleteSession (lines 537 to 569)\<close>

text \<open>
  Lines 558 to 562: the wait for the browser to disconnect, at most 10 times one second;
  the result is the number of seconds waited.
\<close>

function waitDisconnect :: "browser \<Rightarrow> nat \<Rightarrow> nat" where
  "waitDisconnect b maxDelay =
     (if isConnected b maxDelay \<and> maxDelay < 10 then waitDisconnect b (maxDelay + 1) else maxDelay)"
  by pat_completeness auto
termination
  by (relation "measure (\<lambda>(b, maxDelay). 10 - maxDelay)") auto

text \<open>Lines 550 to 556: the sign-out chosen by the validation result.\<close>

definition signOut :: "client \<Rightarrow> string \<Rightarrow> validation \<Rightarrow> world \<Rightarrow> (jserror + unit) \<times> world" where
  "signOut client sessionId validation w =
     (if success validation then
        (let w1 = called (Logout (cid client)) (logger Info (Some sessionId) None ''Logging out session'' w)
         in case logout client of None \<Rightarrow> (Inr (), w1) | Some error \<Rightarrow> (Inl error, w1))
      else if message validation = ''session_not_connected'' then
        (let w1 = called (Destroy (cid client)) (logger Info (Some sessionId) None ''Destroying session'' w)
         in case destroy client of None \<Rightarrow> (Inr (), w1) | Some error \<Rightarrow> (Inl error, w1))
      else (Inr (), w))"

definition deleteSession_try ::
  "env \<Rightarrow> string \<Rightarrow> validation \<Rightarrow> world \<Rightarrow> (jserror + unit) \<times> world" where
  "deleteSession_try e sessionId validation w =
     (case sessions w sessionId of
        None \<Rightarrow> (Inr (), w)
      | Some client0 \<Rightarrow>
          let client = removeAllListeners client0;
              w1 = called (TerminateWebSocketServer sessionId)
                     (w\<lparr>sessions := (sessions w)(sessionId \<mapsto> client)\<rparr>);
              w2 = (case terminateWebSocketServer e sessionId of
                      None \<Rightarrow> w1
                    | Some error \<Rightarrow>
                        logger Error (Some sessionId) (Some error) ''Failed to terminate WebSocket server'' w1)
          in (case signOut client sessionId validation w2 of
                (Inl error, w3) \<Rightarrow> (Inl error, w3)
              | (Inr u, w3) \<Rightarrow>
                  (case pupBrowser client of
                     None \<Rightarrow> (Inl (TypeError ''isConnected''), w3)
                   | Some b \<Rightarrow>
                       let maxDelay = waitDisconnect b 0
                       in deleteSessionFolder e sessionId
                            (w3\<lparr>sessions := (sessions w3)(sessionId := None)\<rparr>))))"

definition deleteSession ::
  "env \<Rightarrow> string \<Rightarrow> validation \<Rightarrow> world \<Rightarrow> (jserror + unit) \<times> world" where
  "deleteSession e sessionId validation w =
     (case deleteSession_try e sessionId validation w of
        (Inl error, w') \<Rightarrow>
          (Inl error, logger Error (Some sessionId) (Some error) ''Failed to delete session'' w')
      | (Inr u, w') \<Rightarrow> (Inr u, w'))"

subsection \<open>flushSessions (lines 575 to 592)\<close>

text \<open>
  \<^verbatim>\<open>file.match(/^session-(.+)$/)\<close> and its group: the rest of the name after
  \<open>session-\<close>, when it is not empty and holds no line terminator (which \<open>.\<close> does not
  match; of the four line terminators of JavaScript the two of ASCII are modelled).
\<close>

definition match_session :: "string \<Rightarrow> string option" where
  "match_session file =
     (let rest = drop 8 file
      in if take 8 file = ''session-'' \<and> rest \<noteq> [] \<and> CHR 0x0A \<notin> set rest \<and> CHR 0x0D \<notin> set rest
         then Some rest else None)"

text \<open>The loop of lines 578 to 587 over the names of the session folder.\<close>

fun flush_loop ::
  "env \<Rightarrow> bool \<Rightarrow> string list \<Rightarrow> world \<Rightarrow> ((jserror + unit) \<times> world) option" where
  "flush_loop e deleteOnlyInactive [] w = Some (Inr (), w)"
| "flush_loop e deleteOnlyInactive (file # files) w =
     (case match_session file of
        None \<Rightarrow> flush_loop e deleteOnlyInactive files w
      | Some sessionId \<Rightarrow>
          (case validateSession sessionId w of
             None \<Rightarrow> None
           | Some (Inl error, w1) \<Rightarrow> Some (Inl error, w1)
           | Some (Inr validation, w1) \<Rightarrow>
               if \<not> deleteOnlyInactive \<or> \<not> success validation
               then (case deleteSession e sessionId validation w1 of
                       (Inl error, w2) \<Rightarrow> Some (Inl error, w2)
                     | (Inr u, w2) \<Rightarrow> flush_loop e deleteOnlyInactive files w2)
               else flush_loop e deleteOnlyInactive files w1))"

definition flushSessions_try :: "env \<Rightarrow> bool \<Rightarrow> world \<Rightarrow> ((jserror + unit) \<times> world) option" where
  "flushSessions_try e deleteOnlyInactive w =
     (case readdir (fs w) (sessionFolderPath e) of
        Inl error \<Rightarrow> Some (Inl error, w)
      | Inr files \<Rightarrow> flush_loop e deleteOnlyInactive files w)"

definition flushSessions :: "env \<Rightarrow> bool \<Rightarrow> world \<Rightarrow> ((jserror + unit) \<times> world) option" where
  "flushSessions e deleteOnlyInactive w =
     (case flushSessions_try e deleteOnlyInactive w of
        None \<Rightarrow> None
      | Some (Inl error, w') \<Rightarrow>
          Some (Inl error, logger Error None (Some error) ''Failed to flush sessions'' w')
      | Some (Inr u, w') \<Rightarrow> Some (Inr u, w'))"

section \<open>Notions of the statements\<close>

subsection \<open>Paths below a directory\<close>





subsection \<open>Validation and sign-out\<close>

text \<open>The warning of line 59.\<close>

definition evaluation_warning :: "string \<Rightarrow> jserror \<Rightarrow> log_entry" where
  "evaluation_warning sessionId error =
     Log Warn (Some sessionId) (Some error) ''Evaluation error during session validation.''"

text \<open>The validation result of a connected session.\<close>

definition connected :: validation where
  "connected = \<lparr>success = True, state = Some ''CONNECTED'', message = ''session_connected''\<rparr>"

text \<open>
  The error, if any, of the sign-out that deleteSession chooses for a validation result
  (lines 550 to 556): of \<^verbatim>\<open>logout\<close>, of \<^verbatim>\<open>destroy\<close>, or none when neither is called.
\<close>

definition signOut_error :: "client \<Rightarrow> validation \<Rightarrow> jserror option" where
  "signOut_error client validation =
     (if success validation then logout client
      else if message validation = ''session_not_connected'' then destroy client
      else None)"

subsection \<open>A concrete deployment\<close>

text \<open>
  The deployment of the compose file: the session folder \<^verbatim>\<open>./sessions\<close> below
  \<^verbatim>\<open>/usr/src/app\<close>, the webhook of the local callback example and the two disabled
  callbacks. The theorems are instantiated on it.
\<close>

definition demo_page :: page where
  "demo_page = \<lparr>listeners = [], isClosed = (\<lambda>k. False), evaluate = (\<lambda>k. Resolved)\<rparr>"

definition demo_browser :: browser where
  "demo_browser = \<lparr>isConnected = (\<lambda>k. k < 3), pages = Inr [None], close = Resolved, process = True\<rparr>"

definition demo_client :: client where
  "demo_client =
     \<lparr>cid = 0, options = \<lparr>opt_webVersion = None, opt_webVersionCache = None\<rparr>,
      pupPage = Some demo_page, pupBrowser = Some demo_browser,
      qr = None, qrImage = None, qrClearTimeout = None, handlers = [],
      initialize = None, getState = Inr (Some ''CONNECTED''), logout = None, destroy = None\<rparr>"

definition demo_env :: env where
  "demo_env =
     \<lparr>sessionFolderPath = ''./sessions'',
      baseWebhookURL = ''http://localhost:3000/localCallbackExample'',
      webVersion = None, webVersionCacheType = None,
      recoverSessions = True, releaseBrowserLock = True,
      process_env = (\<lambda>k. None),
      checkIfEventisEnabled = (\<lambda>ev. ev \<noteq> ''message_ack'' \<and> ev \<noteq> ''message_reaction''),
      newClient = (\<lambda>n. demo_client),
      terminateWebSocketServer = (\<lambda>sessionId. None),
      waitForNestedObject = JsError ''Error'' ''Timed out''\<rparr>"

definition demo_fs :: filesys where
  "demo_fs =
     \<lparr>cwd = ''/usr/src/app'',
      entries = [''/usr'', ''/usr/src'', ''/usr/src/app'', ''/usr/src/app/etc'',
                 ''/usr/src/app/sessions'',
                 ''/usr/src/app/sessions/session-alice'',
                 ''/usr/src/app/sessions/session-alice/Default'',
                 ''/usr/src/app/sessions/session-bob'',
                 ''/usr/src/app/sessions/etc''],
      links = []\<rparr>"

definition demo_world :: world where
  "demo_world =
     \<lparr>sessions = Map.empty, fs = demo_fs, logs = [], calls = [], constructed = 0,
      timers = [], next_timer = 0\<rparr>"

text \<open>A client whose page evaluation never settles, and one whose evaluation rejects.\<close>

definition hung_client :: client where
  "hung_client = demo_client\<lparr>pupPage := Some (demo_page\<lparr>evaluate := (\<lambda>k. Pending)\<rparr>)\<rparr>"

definition hung_world :: world where
  "hung_world = demo_world\<lparr>sessions := [''alice'' \<mapsto> hung_client]\<rparr>"

definition rejecting_page :: page where
  "rejecting_page =
     demo_page\<lparr>evaluate := (\<lambda>k. Rejected (JsError ''Error'' ''Execution context was destroyed.''))\<rparr>"

definition rejecting_world :: world where
  "rejecting_world = demo_world\<lparr>sessions := [''alice'' \<mapsto> demo_client\<lparr>pupPage := Some rejecting_page\<rparr>]\<rparr>"



definition stuck_client :: client where
  "stuck_client = demo_client\<lparr>logout := Some (JsError ''ProtocolError'' ''Session closed.'')\<rparr>"



text \<open>Alice with the client whose \<^verbatim>\<open>logout\<close> rejects, and bob with a healthy one.\<close>

definition two_world :: world where
  "two_world = demo_world\<lparr>sessions := [''alice'' \<mapsto> stuck_client, ''bob'' \<mapsto> demo_client\<lparr>cid := 1\<rparr>]\<rparr>"

section \<open>Evaluation on the deployment\<close>

lemmas demo_defs = demo_env_def demo_world_def demo_client_def demo_page_def demo_browser_def

lemmas setup_defs = setupSession_def setupSession_try_def clientOptions_def construct_def
  releaseLock_def initializeEvents_def logger_def called_def Let_def

lemmas delete_defs = deleteSession_def deleteSession_try_def signOut_def removeAllListeners_def
  deleteSessionFolder_def deleteSessionFolder_try_def logger_def called_def Let_def

lemma demo_lock:
  "lstat_entry demo_fs (path_join [''./sessions'', ''session-'' @ ''alice'', ''SingletonLock'']) = None"
  by code_simp

section \<open>Validation\<close>

text \<open>The probe loop ends from each of the three values its counter takes.\<close>

lemma probe_at_2: "\<exists>r. probe sessionId client 2 lg = Some r"
  by (subst probe.simps) (simp split: option.split outcome.split)

lemma probe_at_1: "\<exists>r. probe sessionId client 1 lg = Some r"
  using probe_at_2 [of sessionId client]
  by (subst probe.simps) (simp split: option.split outcome.split add: numeral_2_eq_2)

lemma probe_at_0: "\<exists>r. probe sessionId client 0 lg = Some r"
  using probe_at_1 [of sessionId client]
  by (subst probe.simps) (simp split: option.split outcome.split)

lemma validateSession_try_returns:
  "\<exists>r w'. validateSession_try sessionId w = Some (r, w')"
proof (cases "sessions w sessionId")
  case None
  then show ?thesis by (simp add: validateSession_try_def)
next
  case (Some client)
  obtain v lg where "probe sessionId client 0 (logs w) = Some (v, lg)"
    using probe_at_0 [of sessionId client "logs w"] by auto
  with Some show ?thesis
    by (cases v) (auto simp: validateSession_try_def split: sum.split)
qed

text \<open>
  C8. validateSession on an identity with no registry entry returns
  \<^verbatim>\<open>{success: false, state: null, message: 'session_not_found'}\<close> and leaves the world
  as it is (no log entry, no call); and for every identity and every world validateSession
  returns (the probe loop ends) with a validation result, never with an exception.
\<close>

theorem validateSession_structured:
  "(sessions w sessionId = None \<longrightarrow>
      validateSession sessionId w =
        Some (Inr \<lparr>success = False, state = None, message = ''session_not_found''\<rparr>, w))
   \<and> (\<exists>v w'. validateSession sessionId w = Some (Inr v, w'))"
proof
  show "sessions w sessionId = None \<longrightarrow>
      validateSession sessionId w =
        Some (Inr \<lparr>success = False, state = None, message = ''session_not_found''\<rparr>, w)"
    by (simp add: validateSession_def validateSession_try_def)
next
  obtain r w1 where "validateSession_try sessionId w = Some (r, w1)"
    using validateSession_try_returns by blast
  then show "\<exists>v w'. validateSession sessionId w = Some (Inr v, w')"
    by (cases r) (simp_all add: validateSession_def)
qed

theorem validateSession_structured_witness:
  "sessions demo_world ''carol'' = None
   \<and> validateSession ''carol'' demo_world =
        Some (Inr \<lparr>success = False, state = None, message = ''session_not_found''\<rparr>, demo_world)"
  using validateSession_structured [of demo_world "''carol''"]
  by (simp add: demo_world_def)

text \<open>The three rounds of the probe loop, for a page that is there and not closed.\<close>

lemma probe_third:
  assumes "pupPage c = Some pg" "\<not> isClosed pg (Suc (Suc 0))"
  shows "probe sessionId c (Suc (Suc 0)) lg =
           (case evaluate pg (Suc (Suc 0)) of
              Rejected error \<Rightarrow>
                Some (Some \<lparr>success = False, state = None, message = ''session closed''\<rparr>,
                      lg @ [evaluation_warning sessionId error])
            | _ \<Rightarrow> Some (None, lg))"
  using assms
  by (subst probe.simps) (simp add: evaluation_warning_def split: outcome.split)

lemma probe_second:
  assumes "pupPage c = Some pg" "\<not> isClosed pg (Suc 0)"
  shows "probe sessionId c (Suc 0) lg =
           (case evaluate pg (Suc 0) of
              Rejected error \<Rightarrow>
                probe sessionId c (Suc (Suc 0)) (lg @ [evaluation_warning sessionId error])
            | _ \<Rightarrow> Some (None, lg))"
  using assms
  by (subst probe.simps) (simp add: evaluation_warning_def split: outcome.split)

lemma probe_first:
  assumes "pupPage c = Some pg" "\<not> isClosed pg 0"
  shows "probe sessionId c 0 lg =
           (case evaluate pg 0 of
              Rejected error \<Rightarrow> probe sessionId c (Suc 0) (lg @ [evaluation_warning sessionId error])
            | _ \<Rightarrow> Some (None, lg))"
  using assms
  by (subst probe.simps) (simp add: evaluation_warning_def split: outcome.split)

text \<open>
  C9, as amended. In the liveness probe of validateSession the page evaluation is raced
  against a timer of one second and is tried at most three times: after three rejected
  evaluations the session is declared dead with \<^verbatim>\<open>session closed\<close>, one warning logged
  per rejection. An evaluation that resolves, and one that is still pending when the timer
  wins, both end the loop as a passed probe, with no retry; a session whose state is
  \<^verbatim>\<open>CONNECTED\<close> is then reported connected.
\<close>

theorem probe_retries:
  assumes "sessions w sessionId = Some c" and "pupPage c = Some pg"
    and "\<not> isClosed pg 0" and "\<not> isClosed pg 1" and "\<not> isClosed pg 2"
  shows "(evaluate pg 0 = Rejected e0 \<and> evaluate pg 1 = Rejected e1 \<and> evaluate pg 2 = Rejected e2 \<longrightarrow>
            validateSession sessionId w =
              Some (Inr \<lparr>success = False, state = None, message = ''session closed''\<rparr>,
                    w\<lparr>logs := logs w @ [evaluation_warning sessionId e0,
                         evaluation_warning sessionId e1, evaluation_warning sessionId e2]\<rparr>))
       \<and> ((evaluate pg 0 = Pending \<or> evaluate pg 0 = Resolved) \<longrightarrow>
            probe sessionId c 0 lg = Some (None, lg))
       \<and> (evaluate pg 0 = Rejected e0 \<and> (evaluate pg 1 = Pending \<or> evaluate pg 1 = Resolved) \<longrightarrow>
            probe sessionId c 0 lg = Some (None, lg @ [evaluation_warning sessionId e0]))
       \<and> (evaluate pg 0 = Rejected e0 \<and> evaluate pg 1 = Rejected e1 \<and>
            (evaluate pg 2 = Pending \<or> evaluate pg 2 = Resolved) \<longrightarrow>
            probe sessionId c 0 lg =
              Some (None, lg @ [evaluation_warning sessionId e0, evaluation_warning sessionId e1]))
       \<and> ((evaluate pg 0 = Pending \<or> evaluate pg 0 = Resolved) \<and> getState c = Inr (Some ''CONNECTED'') \<longrightarrow>
            validateSession sessionId w =
              Some (Inr \<lparr>success = True, state = Some ''CONNECTED'', message = ''session_connected''\<rparr>, w))"
  using assms
  by (auto simp: validateSession_def validateSession_try_def numeral_2_eq_2
        probe_first [of c pg] probe_second [of c pg] probe_third [of c pg])

theorem probe_retries_witness:
  "validateSession ''alice'' rejecting_world =
     Some (Inr \<lparr>success = False, state = None, message = ''session closed''\<rparr>,
           rejecting_world\<lparr>logs :=
             [evaluation_warning ''alice'' (JsError ''Error'' ''Execution context was destroyed.''),
              evaluation_warning ''alice'' (JsError ''Error'' ''Execution context was destroyed.''),
              evaluation_warning ''alice'' (JsError ''Error'' ''Execution context was destroyed.'')]\<rparr>)
   \<and> probe ''alice'' hung_client 0 [] = Some (None, [])"
  using probe_retries [of rejecting_world "''alice''" "demo_client\<lparr>pupPage := Some rejecting_page\<rparr>"
          rejecting_page "JsError ''Error'' ''Execution context was destroyed.''"
          "JsError ''Error'' ''Execution context was destroyed.''"
          "JsError ''Error'' ''Execution context was destroyed.''"]
        probe_retries [where w = hung_world and sessionId = "''alice''" and c = hung_client
          and pg = "demo_page\<lparr>evaluate := (\<lambda>k. Pending)\<rparr>" and lg = "[]"]
  by (simp add: rejecting_world_def rejecting_page_def hung_world_def hung_client_def demo_defs)

text \<open>
  The claim as the specification states it fails: the evaluation of this client never
  settles, the timer wins the race, and the session is reported connected with no retry.
\<close>

theorem probe_retries_counterexample:
  "validateSession ''alice'' hung_world =
     Some (Inr \<lparr>success = True, state = Some ''CONNECTED'', message = ''session_connected''\<rparr>,
           hung_world)"
  by (simp add: validateSession_def validateSession_try_def hung_world_def hung_client_def
        demo_defs probe.simps)

section \<open>Setup\<close>

text \<open>
  C4. A setupSession for an identity the registry already holds returns at once the
  failure \<^verbatim>\<open>Session already exists for: id\<close> with the client of the registry, and leaves
  the world (the registry with its one entry for the identity) as it is. In particular
  after a setupSession that succeeded, the next one for the same identity does so, with
  the client the first one registered.
\<close>

theorem setupSession_twice:
  "(sessions w sessionId = Some c \<longrightarrow>
      setupSession e sessionId w =
        (Inr \<lparr>result_success = False,
              result_message = ''Session already exists for: '' @ sessionId,
              result_client = Some c\<rparr>, w))
   \<and> (setupSession e sessionId w = (Inr r, w1) \<and> result_success r \<longrightarrow>
        (\<exists>c1. sessions w1 sessionId = Some c1 \<and> result_client r = Some c1 \<and>
           setupSession e sessionId w1 =
             (Inr \<lparr>result_success = False,
                   result_message = ''Session already exists for: '' @ sessionId,
                   result_client = Some c1\<rparr>, w1)))"
proof -
  have again: "setupSession e sessionId w' =
        (Inr \<lparr>result_success = False,
              result_message = ''Session already exists for: '' @ sessionId,
              result_client = Some c'\<rparr>, w')"
    if "sessions w' sessionId = Some c'" for w' c'
    using that by (simp add: setupSession_def setupSession_try_def)
  have first: "\<exists>c1. sessions w1 sessionId = Some c1 \<and> result_client r = Some c1"
    if "setupSession e sessionId w = (Inr r, w1)" "result_success r"
    using that
    by (auto simp: setupSession_def setupSession_try_def Let_def
             split: if_splits sum.splits option.splits prod.splits)
  show ?thesis using again first by blast
qed

theorem setupSession_twice_witness:
  "\<exists>r w1. setupSession demo_env ''alice'' demo_world = (Inr r, w1) \<and> result_success r \<and>
     (\<exists>c1. sessions w1 ''alice'' = Some c1 \<and>
        setupSession demo_env ''alice'' w1 =
          (Inr \<lparr>result_success = False,
                result_message = ''Session already exists for: alice'',
                result_client = Some c1\<rparr>, w1))"
proof -
  have "\<exists>r w1. setupSession demo_env ''alice'' demo_world = (Inr r, w1) \<and> result_success r"
    using demo_lock by (simp add: setup_defs demo_defs)
  then obtain r w1 where
    first: "setupSession demo_env ''alice'' demo_world = (Inr r, w1) \<and> result_success r"
    by blast
  from setupSession_twice [of demo_world "''alice''" _ demo_env r w1] first
  show ?thesis by auto
qed

section \<open>Errors of setup, reload and deletion\<close>


lemma releaseLock_sessions [simp]: "sessions (releaseLock e sessionId w) = sessions w"
  by (simp add: releaseLock_def logger_def split: option.split)


lemma deleteSession_error_logged:
  assumes "deleteSession e sessionId validation w = (Inl err, w')"
  shows "last (logs w') = Log Error (Some sessionId) (Some err) ''Failed to delete session''"
  using assms
  by (cases "deleteSession_try e sessionId validation w")
     (auto simp: deleteSession_def logger_def split: sum.splits)







section \<open>Deletion of the session folder\<close>













text \<open>
  The identity \<^verbatim>\<open>../../etc\<close> does not leave the session folder: \<^verbatim>\<open>path.join\<close>
  folds \<^verbatim>\<open>session-../../etc\<close> to \<^verbatim>\<open>etc\<close> inside the folder, the check passes and
  that directory is removed. With one more \<^verbatim>\<open>..\<close> the target is outside, as above.
\<close>

lemma demo_inside:
  "path_join [''./sessions'', ''session-'' @ ''../../etc''] = ''sessions/etc''
   \<and> realpath demo_fs ''sessions/etc'' = Inr ''/usr/src/app/sessions/etc''
   \<and> realpath demo_fs ''./sessions'' = Inr ''/usr/src/app/sessions''
   \<and> prefix (''/usr/src/app/sessions'' @ ''/'') ''/usr/src/app/sessions/etc''
   \<and> entries (rm demo_fs ''/usr/src/app/sessions/etc'') =
       [''/usr'', ''/usr/src'', ''/usr/src/app'', ''/usr/src/app/etc'',
                 ''/usr/src/app/sessions'',
                 ''/usr/src/app/sessions/session-alice'',
                 ''/usr/src/app/sessions/session-alice/Default'',
                 ''/usr/src/app/sessions/session-bob'']"
  by code_simp

lemma traversal_sequence_inside_root:
  "fst (deleteSessionFolder demo_env ''../../etc'' demo_world) = Inr ()
   \<and> entries (fs (snd (deleteSessionFolder demo_env ''../../etc'' demo_world))) =
       [''/usr'', ''/usr/src'', ''/usr/src/app'', ''/usr/src/app/etc'',
                 ''/usr/src/app/sessions'',
                 ''/usr/src/app/sessions/session-alice'',
                 ''/usr/src/app/sessions/session-alice/Default'',
                 ''/usr/src/app/sessions/session-bob'']"
  using demo_inside
  by (simp add: deleteSessionFolder_def deleteSessionFolder_try_def demo_env_def demo_world_def)

section \<open>Deletion of a session\<close>

lemma removeAllListeners_fields [simp]:
  "logout (removeAllListeners c) = logout c"
  "destroy (removeAllListeners c) = destroy c"
  "pupBrowser (removeAllListeners c) = pupBrowser c"
  "cid (removeAllListeners c) = cid c"
  by (simp_all add: removeAllListeners_def split: option.split)

lemma signOut_error_removeAllListeners [simp]:
  "signOut_error (removeAllListeners c) validation = signOut_error c validation"
  by (simp add: signOut_error_def)








section \<open>Flushing the session folder\<close>

lemma flush_loop_append:
  "flush_loop e flag (xs @ ys) w =
     (case flush_loop e flag xs w of
        None \<Rightarrow> None
      | Some (Inl err, w') \<Rightarrow> Some (Inl err, w')
      | Some (Inr u, w') \<Rightarrow> flush_loop e flag ys w')"
  by (induction xs arbitrary: w) (auto split: option.splits sum.splits prod.splits)

lemma demo_readdir:
  "readdir demo_fs ''./sessions'' = Inr [''session-alice'', ''session-bob'', ''etc'']"
  by code_simp

lemma demo_match:
  "match_session ''session-alice'' = Some ''alice''"
  "match_session ''session-bob'' = Some ''bob''"
  "match_session ''etc'' = None"
  by code_simp+

lemma two_validate_alice:
  "validateSession ''alice'' two_world = Some (Inr connected, two_world)"
  by (simp add: validateSession_def validateSession_try_def two_world_def stuck_client_def
        connected_def demo_defs probe.simps)

lemma two_delete_alice:
  "fst (deleteSession demo_env ''alice'' connected two_world) =
     Inl (JsError ''ProtocolError'' ''Session closed.'')
   \<and> sessions (snd (deleteSession demo_env ''alice'' connected two_world)) ''bob'' \<noteq> None
   \<and> fs (snd (deleteSession demo_env ''alice'' connected two_world)) = demo_fs"
  by (simp add: delete_defs two_world_def stuck_client_def connected_def demo_defs)

text \<open>
  C6, as amended. During flushSessions a failure while deleting one session is logged
  (\<^verbatim>\<open>Failed to delete session\<close>, then \<^verbatim>\<open>Failed to flush sessions\<close>) and raised
  again, which ends the flush: the world it leaves is the one of the failed deletion, and
  the names after that session in the folder are neither validated nor deleted.
\<close>

theorem flush_aborts:
  assumes "readdir (fs w) (sessionFolderPath e) = Inr (before @ file # after)"
    and "flush_loop e deleteOnlyInactive before w = Some (Inr (), w1)"
    and "match_session file = Some sessionId"
    and "validateSession sessionId w1 = Some (Inr validation, w2)"
    and "\<not> deleteOnlyInactive \<or> \<not> success validation"
    and "deleteSession e sessionId validation w2 = (Inl err, w3)"
  shows "flushSessions e deleteOnlyInactive w =
           Some (Inl err, logger Error None (Some err) ''Failed to flush sessions'' w3)
       \<and> last (logs w3) = Log Error (Some sessionId) (Some err) ''Failed to delete session''"
proof
  have "flush_loop e deleteOnlyInactive (file # after) w1 = Some (Inl err, w3)"
    using assms(3-6) by auto
  with assms(1,2) show "flushSessions e deleteOnlyInactive w =
           Some (Inl err, logger Error None (Some err) ''Failed to flush sessions'' w3)"
    by (simp add: flushSessions_def flushSessions_try_def flush_loop_append)
next
  show "last (logs w3) = Log Error (Some sessionId) (Some err) ''Failed to delete session''"
    using assms(6) by (rule deleteSession_error_logged)
qed

theorem flush_aborts_witness:
  "flushSessions demo_env False two_world =
     Some (Inl (JsError ''ProtocolError'' ''Session closed.''),
           logger Error None (Some (JsError ''ProtocolError'' ''Session closed.''))
             ''Failed to flush sessions'' (snd (deleteSession demo_env ''alice'' connected two_world)))
   \<and> last (logs (snd (deleteSession demo_env ''alice'' connected two_world))) =
       Log Error (Some ''alice'') (Some (JsError ''ProtocolError'' ''Session closed.''))
         ''Failed to delete session''"
proof -
  have dir: "readdir (fs two_world) (sessionFolderPath demo_env) =
      Inr ([] @ ''session-alice'' # [''session-bob'', ''etc''])"
    using demo_readdir by (simp add: two_world_def demo_world_def demo_env_def)
  have del: "deleteSession demo_env ''alice'' connected two_world =
      (Inl (JsError ''ProtocolError'' ''Session closed.''),
       snd (deleteSession demo_env ''alice'' connected two_world))"
    using two_delete_alice by (simp add: prod_eq_iff)
  have sel: "\<not> False \<or> \<not> success connected" by simp
  show ?thesis
    using flush_aborts [OF dir _ demo_match(1) two_validate_alice sel del]
    by simp
qed

text \<open>
  The claim as the specification states it fails: the deletion of alice raises, the flush
  ends with that error, and bob, next in the folder, is still registered and on disk.
\<close>

theorem flush_aborts_counterexample:
  "\<exists>w'. flushSessions demo_env False two_world =
            Some (Inl (JsError ''ProtocolError'' ''Session closed.''), w')
       \<and> sessions w' ''bob'' \<noteq> None
       \<and> ''/usr/src/app/sessions/session-bob'' \<in> set (entries (fs w'))"
proof -
  have dir: "readdir (fs two_world) (sessionFolderPath demo_env) =
      Inr [''session-alice'', ''session-bob'', ''etc'']"
    using demo_readdir by (simp add: two_world_def demo_world_def demo_env_def)
  obtain w3 where del: "deleteSession demo_env ''alice'' connected two_world =
      (Inl (JsError ''ProtocolError'' ''Session closed.''), w3)"
    and w3: "sessions w3 ''bob'' \<noteq> None" "fs w3 = demo_fs"
    using two_delete_alice by (cases "deleteSession demo_env ''alice'' connected two_world") auto
  have "flushSessions demo_env False two_world =
      Some (Inl (JsError ''ProtocolError'' ''Session closed.''),
            logger Error None (Some (JsError ''ProtocolError'' ''Session closed.''))
              ''Failed to flush sessions'' w3)"
    using dir del two_validate_alice demo_match(1)
    by (simp add: flushSessions_def flushSessions_try_def)
  with w3 show ?thesis by (simp add: logger_def demo_fs_def)
qed

end
